theory Spec2Isabelle
  imports Complex_Main
begin

section \<open>JavaScript numbers, operators and arrays\<close>

text \<open>
  The adapter (class \<open>Moon\<close> of \<open>utils/moon.ts\<close>) computes on JavaScript numbers. They are
  modelled by the reals: every arithmetic operation is exact, and \<open>NaN\<close> and the
  infinities are not values. Integer-valued results (\<open>Math.round\<close>, \<open>Math.floor\<close>,
  \<open>Math.ceil\<close>, array indices) are of type \<open>int\<close>.
\<close>

definition Math_round :: "real \<Rightarrow> int" where
  \<comment> \<open>\<open>Math.round\<close>: the nearest integer, a tie going towards \<open>+\<infinity>\<close>.\<close>
  "Math_round x = \<lfloor>x + 1 / 2\<rfloor>"

definition Math_floor :: "real \<Rightarrow> int" where
  "Math_floor x = \<lfloor>x\<rfloor>"

definition Math_ceil :: "real \<Rightarrow> int" where
  "Math_ceil x = \<lceil>x\<rceil>"

definition js_rem :: "int \<Rightarrow> int \<Rightarrow> int" where
  \<comment> \<open>The operator \<open>%\<close> on integer-valued operands with a non-zero divisor: the
      remainder of the truncating division, with the sign of the dividend.\<close>
  "js_rem a b = sgn a * (\<bar>a\<bar> mod \<bar>b\<bar>)"

definition index :: "'a list \<Rightarrow> int \<Rightarrow> 'a option" where
  \<comment> \<open>\<open>xs[i]\<close> for an integer-valued \<open>i\<close>: \<open>undefined\<close> (here \<open>None\<close>) outside the array.\<close>
  "index xs i = (if 0 \<le> i \<and> i < int (length xs) then Some (xs ! nat i) else None)"

section \<open>Cardinal direction\<close>

definition cardinalPoints :: "string list" where
  "cardinalPoints = [''N'', ''NE'', ''E'', ''SE'', ''S'', ''SW'', ''W'', ''NW'', ''N'']"

definition convertCardinal :: "real \<Rightarrow> string option" where
  \<comment> \<open>\<open>_convertCardinal\<close>\<close>
  "convertCardinal degrees = index cardinalPoints (Math_round (degrees / 45))"

text \<open>The compass table in the words of the specification: eight points, indexed modulo 8.\<close>

definition compass8 :: "string list" where
  "compass8 = [''N'', ''NE'', ''E'', ''SE'', ''S'', ''SW'', ''W'', ''NW'']"

definition cardinalDirection_spec :: "real \<Rightarrow> string" where
  "cardinalDirection_spec azimuth = compass8 ! nat (Math_round (azimuth / 45) mod 8)"

section \<open>Strings and decimal notation\<close>

text \<open>
  A JavaScript string is modelled by the bytes of its UTF-8 encoding, so that \<open>===\<close> is
  equality and \<open>+\<close> is \<open>@\<close>. The only character outside ASCII that the adapter names is
  the degree sign U+00B0; U+200A, the hair space, is what the specification calls a hairline
  space.
\<close>

definition degreeSign :: string where
  "degreeSign = [CHR 0xC2, CHR 0xB0]"

definition hairSpace :: string where
  "hairSpace = [CHR 0xE2, CHR 0x80, CHR 0x8A]"

definition truthy :: "string option \<Rightarrow> bool" where
  \<comment> \<open>An optional string argument used as a condition: \<open>undefined\<close> and the empty string
      are falsy.\<close>
  "truthy s = (case s of None \<Rightarrow> False | Some t \<Rightarrow> t \<noteq> [])"

definition digitChar :: "nat \<Rightarrow> char" where
  "digitChar d = ''0123456789'' ! d"

fun showNat :: "nat \<Rightarrow> string" where
  "showNat n = (if n < 10 then [digitChar n] else showNat (n div 10) @ [digitChar (n mod 10)])"

declare showNat.simps [simp del]

definition toFixed :: "nat \<Rightarrow> real \<Rightarrow> string" where
  \<comment> \<open>\<open>x.toFixed(f)\<close> (ECMAScript, Number.prototype.toFixed) for \<open>\<bar>x\<bar> < 10\<^sup>2\<^sup>1\<close>: the
      sign, then the integer \<open>n\<close> with \<open>n / 10\<^sup>f\<close> closest to \<open>\<bar>x\<bar>\<close> (the larger one at a
      tie), padded with zeros to \<open>f + 1\<close> digits, with a point before the last \<open>f\<close>.\<close>
  "toFixed f x0 =
     (let s = (if x0 < 0 then ''-'' else []);
          x = \<bar>x0\<bar>;
          n = nat \<lfloor>x * 10 ^ f + 1 / 2\<rfloor>;
          m = showNat n
      in if f \<noteq> 0 then
           (let k = length m;
                m = (if k \<le> f then replicate (f + 1 - k) CHR ''0'' @ m else m);
                k = (if k \<le> f then f + 1 else k);
                a = take (k - f) m;
                b = drop (k - f) m
            in s @ a @ ''.'' @ b)
         else s @ m)"

definition digitVal :: "char \<Rightarrow> nat" where
  "digitVal c = of_char c - 48"

definition readNat :: "string \<Rightarrow> nat" where
  "readNat s = foldl (\<lambda>a c. 10 * a + digitVal c) 0 s"

definition Number :: "string \<Rightarrow> real" where
  \<comment> \<open>\<open>Number(s)\<close> on the decimal literals that \<open>toFixed\<close> writes: an optional minus sign,
      digits, and optionally a point and digits.\<close>
  "Number s =
     (let neg = (s \<noteq> [] \<and> hd s = CHR ''-'');
          u = (if neg then tl s else s);
          a = takeWhile (\<lambda>c. c \<noteq> CHR ''.'') u;
          b = drop (length a + 1) u;
          v = real (readNat a) + real (readNat b) / 10 ^ length b
      in if neg then - v else v)"

definition round2 :: "real \<Rightarrow> real" where
  \<comment> \<open>The number that \<open>x.toFixed(2)\<close> denotes: \<open>x\<close> rounded to hundredths, a tie going away
      from zero.\<close>
  "round2 x = (if x < 0 then - 1 else 1) * real (nat \<lfloor>\<bar>x\<bar> * 100 + 1 / 2\<rfloor>) / 100"

section \<open>Data of the astronomical source and of the card\<close>

text \<open>
  An instant is the time value of a \<open>Date\<close>, in milliseconds. A \<open>number | Date\<close> handed to
  \<open>new Date\<close> either has a time value or is an Invalid Date (\<open>NaN\<close>).
\<close>

datatype JsTime = Time int | InvalidTime

record IMoonIllumination =
  fraction :: real
  phaseValue :: real
  phase_id :: string
  next_fullMoon :: int
  next_newMoon :: int

record IMoonData =
  sc_distance :: real
  sc_azimuthDegrees :: real
  sc_altitudeDegrees :: real
  zenithAngle :: real
  parallacticAngle :: real
  illumination :: IMoonIllumination

record IMoonTimes =
  rise_t :: JsTime
  set_t :: JsTime
  highest_t :: "JsTime option"

record IMoonPosition =
  pos_azimuthDegrees :: real
  pos_altitudeDegrees :: real

record FrontendLocaleData =
  locale_language :: string
  locale_number_format :: string

record RelativeTime =
  rt_key :: string
  rt_value :: string

text \<open>
  What the adapter imports from outside \<open>utils/moon.ts\<close> is a parameter of the model: the
  helpers \<open>localize\<close>, \<open>formatedTime\<close> and \<open>formatRelativeTime\<close>, \<open>formatNumber\<close> of
  custom-card-helpers, the table \<open>MOON_IMAGES\<close>, the functions of SunCalc, and the
  locale-dependent \<open>Date.toLocaleDateString\<close>. \<open>formatedTime\<close> and \<open>formatRelativeTime\<close>
  take the time value of a valid time: on an Invalid Date the adapter's call raises (in
  \<open>toISOString\<close>), and no result of theirs reaches the caller.
\<close>

record Collaborators =
  ext_localize :: "string \<Rightarrow> string \<Rightarrow> string \<Rightarrow> string \<Rightarrow> string"
  ext_formatedTime :: "int \<Rightarrow> bool \<Rightarrow> string \<Rightarrow> string"
  ext_formatRelativeTime :: "int \<Rightarrow> RelativeTime"
  ext_formatNumber :: "string \<Rightarrow> FrontendLocaleData \<Rightarrow> string"
  ext_toLocaleDateString :: "int \<Rightarrow> string \<Rightarrow> string"
  MOON_IMAGES :: "string list"
  SunCalc_getMoonTimes :: "int \<Rightarrow> real \<Rightarrow> real \<Rightarrow> IMoonTimes"
  SunCalc_getMoonData :: "int \<Rightarrow> real \<Rightarrow> real \<Rightarrow> IMoonData"
  SunCalc_getMoonPosition :: "int \<Rightarrow> real \<Rightarrow> real \<Rightarrow> IMoonPosition"

definition helpers_convertKmToMiles :: "real \<Rightarrow> bool \<Rightarrow> real" where
  \<comment> \<open>Modelled from the spec: \<open>convertKmToMiles\<close> of the module \<open>utils/helpers\<close>, whose
      source is not at hand. "Linear conversion km to mi (factor 0.621371) when useMiles
      true, else identity".\<close>
  "helpers_convertKmToMiles km useMiles = (if useMiles then km * 0.621371 else km)"

record Location =
  latitude :: real
  longitude :: real

record LunarPhaseCardConfig =
  cfg_latitude :: real
  cfg_longitude :: real
  cfg_12hr_format :: "bool option"
  cfg_mile_unit :: "bool option"

record Moon =
  date :: int
  lang :: string
  config :: LunarPhaseCardConfig
  location :: Location
  locale_data :: FrontendLocaleData
  amPm :: bool
  useMiles :: bool

record MoonDataItem =
  item_label :: string
  item_value :: string
  item_secondValue :: string

record MoonData =
  moonFraction :: MoonDataItem
  moonAge :: MoonDataItem
  moonRise :: MoonDataItem
  moonSet :: MoonDataItem
  moonHighest :: "MoonDataItem option"
  distance :: MoonDataItem
  azimuthDegress :: MoonDataItem
  altitudeDegrees :: MoonDataItem
  nextFullMoon :: MoonDataItem
  nextNewMoon :: MoonDataItem

record MoonImage =
  moonPic :: "string option"
  rotateDeg :: real

datatype error = RangeError

section \<open>The class Moon\<close>

definition Moon_new :: "int \<Rightarrow> string \<Rightarrow> LunarPhaseCardConfig \<Rightarrow> FrontendLocaleData \<Rightarrow> Moon" where
  \<comment> \<open>The constructor; \<open>||\<close> with \<open>false\<close> turns an absent flag into \<open>false\<close>.\<close>
  "Moon_new d l cfg loc =
     \<lparr>date = d, lang = l, config = cfg,
      location = \<lparr>latitude = cfg_latitude cfg, longitude = cfg_longitude cfg\<rparr>,
      locale_data = loc,
      amPm = (case cfg_12hr_format cfg of Some b \<Rightarrow> b | None \<Rightarrow> False),
      useMiles = (case cfg_mile_unit cfg of Some b \<Rightarrow> b | None \<Rightarrow> False)\<rparr>"

definition localize :: "Collaborators \<Rightarrow> Moon \<Rightarrow> string \<Rightarrow> string \<Rightarrow> string \<Rightarrow> string" where
  "localize c m s search replace = ext_localize c s (lang m) search replace"

definition formatTime :: "Collaborators \<Rightarrow> Moon \<Rightarrow> int \<Rightarrow> string" where
  "formatTime c m time = ext_formatedTime c time (amPm m) (lang m)"

definition convertKmToMiles :: "Moon \<Rightarrow> real \<Rightarrow> real" where
  "convertKmToMiles m km = helpers_convertKmToMiles km (useMiles m)"

definition formatNumber :: "Collaborators \<Rightarrow> Moon \<Rightarrow> string \<Rightarrow> string" where
  "formatNumber c m num = ext_formatNumber c num (locale_data m)"

definition moonTime :: "Collaborators \<Rightarrow> Moon \<Rightarrow> IMoonTimes" where
  \<comment> \<open>the getter \<open>_moonTime\<close>\<close>
  "moonTime c m = SunCalc_getMoonTimes c (date m) (latitude (location m)) (longitude (location m))"

definition moonData_raw :: "Collaborators \<Rightarrow> Moon \<Rightarrow> IMoonData" where
  \<comment> \<open>the getter \<open>_moonData\<close>\<close>
  "moonData_raw c m = SunCalc_getMoonData c (date m) (latitude (location m)) (longitude (location m))"

definition blackBeforeUnit :: "Moon \<Rightarrow> string \<Rightarrow> string" where
  "blackBeforeUnit m unit =
     (if unit = degreeSign then []
      else if unit = ''%'' then
        (if lang m \<in> set [''cs'', ''de'', ''fi'', ''fr'', ''sk'', ''sv''] then '' '' else [])
      else '' '')"

definition createItem ::
  "Collaborators \<Rightarrow> Moon \<Rightarrow> string \<Rightarrow> string \<Rightarrow> string option \<Rightarrow> string option \<Rightarrow> MoonDataItem" where
  "createItem c m label v unit secondValue =
     \<lparr>item_label = localize c m (''card.'' @ label) [] [],
      item_value = v @ (if truthy unit then blackBeforeUnit m (the unit) @ the unit else []),
      item_secondValue = (if truthy secondValue then the secondValue else [])\<rparr>"

definition localizeRelativeTime :: "Collaborators \<Rightarrow> Moon \<Rightarrow> JsTime \<Rightarrow> error + string" where
  \<comment> \<open>The local function of \<open>createMoonTime\<close>. \<open>toISOString\<close> raises a RangeError on an
      Invalid Date.\<close>
  "localizeRelativeTime c m time =
     (case time of
        InvalidTime \<Rightarrow> Inl RangeError
      | Time t \<Rightarrow>
          (let relativeTime = ext_formatRelativeTime c t
           in Inr (if rt_value relativeTime \<noteq> []
                   then localize c m (rt_key relativeTime) ''{0}'' (rt_value relativeTime)
                   else localize c m (rt_key relativeTime) [] [])))"

definition createMoonTime :: "Collaborators \<Rightarrow> Moon \<Rightarrow> string \<Rightarrow> JsTime \<Rightarrow> error + MoonDataItem" where
  \<comment> \<open>On an Invalid Date the call ends in the RangeError of \<open>localizeRelativeTime\<close>, whatever
      \<open>formatedTime\<close> made of it before.\<close>
  "createMoonTime c m key time =
     (case time of
        InvalidTime \<Rightarrow> Inl RangeError
      | Time t \<Rightarrow>
          (let timeString = formatTime c m t
           in case localizeRelativeTime c m time of
                Inl e \<Rightarrow> Inl e
              | Inr secondValue \<Rightarrow> Inr (createItem c m key timeString (Some []) (Some secondValue))))"

definition phaseIndex :: "real \<Rightarrow> int" where
  \<comment> \<open>\<open>Math.floor(phaseValue * 31) % 31\<close>\<close>
  "phaseIndex pv = js_rem (Math_floor (pv * 31)) 31"

definition getMoonRotation :: "Collaborators \<Rightarrow> Moon \<Rightarrow> real" where
  \<comment> \<open>\<open>_getMoonRotation\<close>\<close>
  "getMoonRotation c m =
     (let d = moonData_raw c m;
          rotateDeg = (zenithAngle d - parallacticAngle d) * (180 / pi)
      in rotateDeg)"

definition moonImage :: "Collaborators \<Rightarrow> Moon \<Rightarrow> MoonImage" where
  "moonImage c m =
     (let phaseIndex = phaseIndex (phaseValue (illumination (moonData_raw c m)));
          d = moonData_raw c m;
          rotateDeg = (zenithAngle d - parallacticAngle d) * (180 / pi)
      in \<lparr>moonPic = index (MOON_IMAGES c) phaseIndex, rotateDeg = rotateDeg\<rparr>)"

definition shortTime :: "Collaborators \<Rightarrow> Moon \<Rightarrow> int \<Rightarrow> string" where
  \<comment> \<open>the local function of \<open>moonData\<close>\<close>
  "shortTime c m d = ext_toLocaleDateString c d (lang m)"

definition moonData :: "Collaborators \<Rightarrow> Moon \<Rightarrow> error + MoonData" where
  "moonData c m =
     (let d = moonData_raw c m;
          ill = illumination d;
          times = moonTime c m;
          f_moonFraction = formatNumber c m (toFixed 2 (fraction ill * 100));
          f_moonAge = formatNumber c m (toFixed 2 (phaseValue ill * 29.53));
          f_distance = formatNumber c m (toFixed 2 (convertKmToMiles m (sc_distance d)));
          f_azimuth = formatNumber c m (toFixed 2 (sc_azimuthDegrees d));
          f_altitude = formatNumber c m (toFixed 2 (sc_altitudeDegrees d))
      in case createMoonTime c m ''moonRise'' (rise_t times) of
           Inl e \<Rightarrow> Inl e
         | Inr v_moonRise \<Rightarrow>
        (case createMoonTime c m ''moonSet'' (set_t times) of
           Inl e \<Rightarrow> Inl e
         | Inr v_moonSet \<Rightarrow>
        (case (case highest_t times of
                 None \<Rightarrow> Inr None
               | Some h \<Rightarrow> (case createMoonTime c m ''moonHigh'' h of
                              Inl e \<Rightarrow> Inl e
                            | Inr it \<Rightarrow> Inr (Some it))) of
           Inl e \<Rightarrow> Inl e
         | Inr v_moonHighest \<Rightarrow>
             Inr \<lparr>moonFraction = createItem c m ''illumination'' f_moonFraction (Some ''%'') None,
                  moonAge = createItem c m ''moonAge'' f_moonAge
                              (Some (localize c m ''card.relativeTime.days'' [] [])) None,
                  moonRise = v_moonRise,
                  moonSet = v_moonSet,
                  moonHighest = v_moonHighest,
                  distance = createItem c m ''distance'' f_distance
                               (Some (if useMiles m then ''mi'' else ''km'')) None,
                  azimuthDegress = createItem c m ''azimuth'' f_azimuth (Some degreeSign) None,
                  altitudeDegrees = createItem c m ''altitude'' f_altitude (Some degreeSign) None,
                  nextFullMoon = createItem c m ''fullMoon''
                                   (shortTime c m (next_fullMoon ill)) None None,
                  nextNewMoon = createItem c m ''newMoon''
                                  (shortTime c m (next_newMoon ill)) None None\<rparr>)))"

section \<open>The altitude profile of a day\<close>

text \<open>
  The object \<open>result\<close> of \<open>_getAltituteData\<close> is modelled by the list of its properties in
  the order of their creation. Writing \<open>result[key]\<close> replaces the value of a property that
  exists and creates one at the end otherwise.
\<close>

fun setProp :: "(string \<times> 'v) list \<Rightarrow> string \<Rightarrow> 'v \<Rightarrow> (string \<times> 'v) list" where
  "setProp [] k v = [(k, v)]"
| "setProp (p # ps) k v = (if fst p = k then (k, v) # ps else p # setProp ps k v)"

definition isDigit :: "char \<Rightarrow> bool" where
  "isDigit ch = (ch \<in> set ''0123456789'')"

definition isArrayIndex :: "string \<Rightarrow> bool" where
  \<comment> \<open>A property key that is the canonical decimal numeral of an integer up to \<open>2\<^sup>3\<^sup>2 - 2\<close>.\<close>
  "isArrayIndex k =
     (k \<noteq> [] \<and> list_all isDigit k \<and> (k = ''0'' \<or> hd k \<noteq> CHR ''0'') \<and> int (readNat k) < 2 ^ 32 - 1)"

definition ownEntries :: "(string \<times> 'v) list \<Rightarrow> (string \<times> 'v) list" where
  \<comment> \<open>The order in which \<open>Object.keys\<close> and \<open>Object.values\<close> enumerate: array indices
      ascending, then the other keys in the order of their creation.\<close>
  "ownEntries d =
     sort_key (\<lambda>p. readNat (fst p)) (filter (\<lambda>p. isArrayIndex (fst p)) d) @
     filter (\<lambda>p. \<not> isArrayIndex (fst p)) d"

definition Object_keys :: "(string \<times> 'v) list \<Rightarrow> string list" where
  "Object_keys d = map fst (ownEntries d)"

definition Object_values :: "(string \<times> 'v) list \<Rightarrow> 'v list" where
  "Object_values d = map snd (ownEntries d)"

fun Math_max :: "real list \<Rightarrow> real" where
  \<comment> \<open>\<open>Math.max(...xs)\<close> of at least one number (of none it is \<open>-Infinity\<close>).\<close>
  "Math_max (x # xs) = fold max xs x"

fun Math_min :: "real list \<Rightarrow> real" where
  "Math_min (x # xs) = fold min xs x"

function getAltituteData_loop ::
  "Collaborators \<Rightarrow> Moon \<Rightarrow> int \<Rightarrow> nat \<Rightarrow> (string \<times> real) list \<Rightarrow> (string \<times> real) list" where
  "getAltituteData_loop c m startTime i result =
     (if i < 48 then
        (let time = startTime + int i * 30 * 60 * 1000;
             formatedTime = formatTime c m time;
             position = SunCalc_getMoonPosition c time (latitude (location m)) (longitude (location m))
         in getAltituteData_loop c m startTime (i + 1)
              (setProp result formatedTime (Number (toFixed 2 (pos_altitudeDegrees position)))))
      else result)"
  by pat_completeness auto
termination
  by (relation "measure (\<lambda>(c, m, startTime, i, result). 48 - i)") auto

declare getAltituteData_loop.simps [simp del]

definition getAltituteData :: "Collaborators \<Rightarrow> Moon \<Rightarrow> int \<Rightarrow> (string \<times> real) list" where
  \<comment> \<open>\<open>_getAltituteData\<close>\<close>
  "getAltituteData c m startTime = getAltituteData_loop c m startTime 0 []"

record MinMaxY =
  sugestedYMax :: int
  sugestedYMin :: real

record TodayData =
  td_time :: IMoonTimes
  td_altitude :: "(string \<times> real) list"
  timeLabels :: "string list"
  altitudeData :: "real list"
  minMaxY :: MinMaxY
  moonPhase :: IMoonIllumination
  lang_rise :: string
  lang_set :: string

definition todayData :: "Collaborators \<Rightarrow> Moon \<Rightarrow> int \<Rightarrow> TodayData" where
  \<comment> \<open>The getter \<open>todayData\<close>, given \<open>startTime\<close>: the local midnight that
      \<open>new Date().setHours(0, 0, 0, 0)\<close> finds, which is also what \<open>today\<close> is from then on.\<close>
  "todayData c m startTime =
     (let today = startTime;
          altitudeData' = getAltituteData c m startTime
      in \<lparr>td_time = SunCalc_getMoonTimes c today (latitude (location m)) (longitude (location m)),
          td_altitude = getAltituteData c m startTime,
          timeLabels = Object_keys altitudeData',
          altitudeData = Object_values altitudeData',
          minMaxY =
            \<lparr>sugestedYMax = Math_ceil (Math_max (Object_values altitudeData') + 10),
             sugestedYMin = Math_min (Object_values altitudeData') - 10\<rparr>,
          moonPhase = illumination (moonData_raw c m),
          lang_rise = localize c m ''card.moonRise'' [] [],
          lang_set = localize c m ''card.moonSet'' [] []\<rparr>)"

section \<open>Collaborators for the examples\<close>

definition twoDigits :: "nat \<Rightarrow> string" where
  "twoDigits n = [digitChar (n div 10), digitChar (n mod 10)]"

definition wallClock :: "(int \<Rightarrow> int) \<Rightarrow> int \<Rightarrow> string" where
  \<comment> \<open>Modelled from the spec: the label that \<open>formatedTime\<close> of the module \<open>utils/helpers\<close>
      writes, whose source is not at hand: "the wall-clock label", here of a 24-hour clock
      in a zone that is \<open>offset t\<close> minutes ahead of UTC at the instant \<open>t\<close>.\<close>
  "wallClock offset t =
     (let minute = nat ((t div 60000 + offset t) mod 1440)
      in twoDigits (minute div 60) @ '':'' @ twoDigits (minute mod 60))"

definition berlinOffset :: "int \<Rightarrow> int" where
  \<comment> \<open>Central European time in 2024, after the start of summer time: two hours ahead
      of UTC until summer time ends on 27 October at 01:00 UTC, one hour from then on.\<close>
  "berlinOffset t = (if t < 1729990800000 then 120 else 60)"

text \<open>
  Above 66 degrees of latitude the example source reports a day on which the moon does not
  rise: the rise time is \<open>NaN\<close> and there is no highest time, the form in which SunCalc
  reports such a day.
\<close>

definition exampleSource :: Collaborators where
  "exampleSource =
     \<lparr>ext_localize = (\<lambda>s lang search replace. s),
      ext_formatedTime = (\<lambda>t amPm lang. wallClock berlinOffset t),
      ext_formatRelativeTime = (\<lambda>t. \<lparr>rt_key = ''card.relativeTime.inHours'', rt_value = ''3''\<rparr>),
      ext_formatNumber = (\<lambda>num loc. num),
      ext_toLocaleDateString = (\<lambda>t lang. showNat (nat (t div 86400000))),
      MOON_IMAGES = map showNat [0..<31],
      SunCalc_getMoonTimes = (\<lambda>t lat lon.
        (if 66 < lat
         then \<lparr>rise_t = InvalidTime, set_t = Time (t + 43200000), highest_t = None\<rparr>
         else \<lparr>rise_t = Time (t + 3600000), set_t = Time (t + 43200000),
                highest_t = Some (Time (t + 23400000))\<rparr>)),
      SunCalc_getMoonData = (\<lambda>t lat lon.
        \<lparr>sc_distance = 384400, sc_azimuthDegrees = 225, sc_altitudeDegrees = 12.345,
         zenithAngle = 10, parallacticAngle = 1,
         illumination = \<lparr>fraction = 0.5, phaseValue = 0.25, phase_id = ''firstQuarter'',
           next_fullMoon = t + 600000000, next_newMoon = t + 1800000000\<rparr>\<rparr>),
      SunCalc_getMoonPosition = (\<lambda>t lat lon.
        \<lparr>pos_azimuthDegrees = 180,
         pos_altitudeDegrees = real_of_int ((t div 1800000) mod 48) * 1.234 - 30\<rparr>)\<rparr>"

definition exampleMoon :: "string \<Rightarrow> real \<Rightarrow> Moon" where
  "exampleMoon l lat =
     Moon_new 1729980000000 l
       \<lparr>cfg_latitude = lat, cfg_longitude = 13.4, cfg_12hr_format = None, cfg_mile_unit = Some True\<rparr>
       \<lparr>locale_language = l, locale_number_format = ''language''\<rparr>"

section \<open>Decimal notation: reading back what \<open>toFixed\<close> writes\<close>

lemma digit_cases:
  assumes "d < (10::nat)"
  obtains "d = 0" | "d = 1" | "d = 2" | "d = 3" | "d = 4" | "d = 5" | "d = 6" | "d = 7"
    | "d = 8" | "d = 9"
  using assms by atomize_elim arith

lemma digitVal_digitChar: "d < 10 \<Longrightarrow> digitVal (digitChar d) = d"
  by (erule digit_cases) (simp_all add: digitVal_def digitChar_def)

lemma isDigit_digitChar: "d < 10 \<Longrightarrow> isDigit (digitChar d)"
  by (erule digit_cases) (simp_all add: isDigit_def digitChar_def)

lemma isDigit_not_point: "isDigit ch \<Longrightarrow> ch \<noteq> CHR ''.'' \<and> ch \<noteq> CHR ''-''"
  by (auto simp add: isDigit_def)

lemma foldl_digits_acc:
  "foldl (\<lambda>a ch. 10 * a + digitVal ch) a ys =
     a * 10 ^ length ys + foldl (\<lambda>a ch. 10 * a + digitVal ch) 0 ys"
proof (induction ys arbitrary: a)
  case Nil
  then show ?case by simp
next
  case (Cons y ys)
  show ?case
    using Cons.IH [of "10 * a + digitVal y"] Cons.IH [of "digitVal y"]
    by (simp add: algebra_simps)
qed

lemma readNat_append: "readNat (xs @ ys) = readNat xs * 10 ^ length ys + readNat ys"
  using foldl_digits_acc [of "readNat xs" ys] by (simp add: readNat_def)

lemma readNat_single: "readNat [ch] = digitVal ch"
  by (simp add: readNat_def)

lemma readNat_showNat: "readNat (showNat n) = n"
proof (induction n rule: showNat.induct)
  case (1 n)
  show ?case
  proof (cases "n < 10")
    case True
    then show ?thesis
      by (simp add: showNat.simps [of n] readNat_single digitVal_digitChar)
  next
    case False
    have "n mod 10 < 10" by simp
    with False 1 show ?thesis
      by (simp add: showNat.simps [of n] readNat_append readNat_single digitVal_digitChar)
  qed
qed

lemma digits_showNat: "list_all isDigit (showNat n)"
proof (induction n rule: showNat.induct)
  case (1 n)
  have "n mod 10 < 10" by simp
  with 1 show ?case
    by (cases "n < 10") (simp_all add: showNat.simps [of n] isDigit_digitChar)
qed

lemma showNat_nonempty: "showNat n \<noteq> []"
  by (simp add: showNat.simps [of n])

lemma readNat_zeros: "readNat (replicate j CHR ''0'') = 0"
  by (induction j) (simp_all add: readNat_def digitVal_def)

lemma Number_decimal:
  assumes a: "list_all isDigit a" "a \<noteq> []" and b: "list_all isDigit b"
  shows "Number (a @ ''.'' @ b) = real (readNat a) + real (readNat b) / 10 ^ length b"
    and "Number (''-'' @ a @ ''.'' @ b) = - (real (readNat a) + real (readNat b) / 10 ^ length b)"
proof -
  have nodot: "\<forall>ch \<in> set a. ch \<noteq> CHR ''.''"
    using a isDigit_not_point by (auto simp add: list_all_iff)
  have tw: "takeWhile (\<lambda>ch. ch \<noteq> CHR ''.'') (a @ CHR ''.'' # b) = a"
    using nodot by (simp add: takeWhile_append2)
  have "hd a \<in> set a" using a by simp
  then have hd: "hd a \<noteq> CHR ''-''"
    using a isDigit_not_point by (auto simp add: list_all_iff)
  show "Number (a @ ''.'' @ b) = real (readNat a) + real (readNat b) / 10 ^ length b"
    using a hd tw by (simp add: Number_def Let_def)
  show "Number (''-'' @ a @ ''.'' @ b) = - (real (readNat a) + real (readNat b) / 10 ^ length b)"
    using tw by (simp add: Number_def Let_def)
qed

lemma toFixed2_split:
  obtains a b where "toFixed 2 x = (if x < 0 then ''-'' else []) @ a @ ''.'' @ b"
    and "list_all isDigit a" and "a \<noteq> []" and "list_all isDigit b" and "length b = 2"
    and "readNat a * 100 + readNat b = nat \<lfloor>\<bar>x\<bar> * 100 + 1 / 2\<rfloor>"
proof -
  define n where "n = nat \<lfloor>\<bar>x\<bar> * 100 + 1 / 2\<rfloor>"
  define m where "m = (if length (showNat n) \<le> 2
    then replicate (3 - length (showNat n)) CHR ''0'' @ showNat n else showNat n)"
  define k where "k = (if length (showNat n) \<le> 2 then 3 else length (showNat n))"
  have len: "length m = k" "3 \<le> k"
    using showNat_nonempty [of n] by (auto simp add: m_def k_def)
  have dig: "list_all isDigit m"
    using digits_showNat [of n] by (simp add: m_def isDigit_def list_all_iff)
  have val: "readNat m = n"
    by (simp add: m_def readNat_append readNat_zeros readNat_showNat)
  have fixed: "toFixed 2 x = (if x < 0 then ''-'' else []) @ take (k - 2) m @ ''.'' @ drop (k - 2) m"
    by (simp add: toFixed_def Let_def n_def m_def k_def)
  have "readNat (take (k - 2) m @ drop (k - 2) m) = n" using val by simp
  then have sum: "readNat (take (k - 2) m) * 100 + readNat (drop (k - 2) m) = n"
    using len by (simp only: readNat_append) simp
  show thesis
  proof (rule that [of "take (k - 2) m" "drop (k - 2) m"])
    show "toFixed 2 x = (if x < 0 then ''-'' else []) @ take (k - 2) m @ ''.'' @ drop (k - 2) m"
      by (rule fixed)
    show "list_all isDigit (take (k - 2) m)"
      using dig by (auto simp add: list_all_iff dest: in_set_takeD)
    show "take (k - 2) m \<noteq> []" using len by auto
    show "list_all isDigit (drop (k - 2) m)"
      using dig by (auto simp add: list_all_iff dest: in_set_dropD)
    show "length (drop (k - 2) m) = 2" using len by simp
    show "readNat (take (k - 2) m) * 100 + readNat (drop (k - 2) m) = nat \<lfloor>\<bar>x\<bar> * 100 + 1 / 2\<rfloor>"
      using sum by (simp add: n_def)
  qed
qed

lemma Number_toFixed2: "Number (toFixed 2 x) = round2 x"
proof -
  obtain a b where ab: "toFixed 2 x = (if x < 0 then ''-'' else []) @ a @ ''.'' @ b"
    "list_all isDigit a" "a \<noteq> []" "list_all isDigit b" "length b = 2"
    "readNat a * 100 + readNat b = nat \<lfloor>\<bar>x\<bar> * 100 + 1 / 2\<rfloor>"
    by (rule toFixed2_split)
  have "real (readNat a) + real (readNat b) / 10 ^ length b
      = real (readNat a * 100 + readNat b) / 100"
    using ab(5) by simp
  also have "\<dots> = real (nat \<lfloor>\<bar>x\<bar> * 100 + 1 / 2\<rfloor>) / 100"
    by (simp only: ab(6))
  finally have v: "real (readNat a) + real (readNat b) / 10 ^ length b
      = real (nat \<lfloor>\<bar>x\<bar> * 100 + 1 / 2\<rfloor>) / 100" .
  show ?thesis
  proof (cases "x < 0")
    case True
    then have "toFixed 2 x = ''-'' @ a @ ''.'' @ b" using ab(1) by simp
    then show ?thesis
      using Number_decimal(2) [OF ab(2) ab(3) ab(4)] v True by (simp add: round2_def)
  next
    case False
    then have "toFixed 2 x = a @ ''.'' @ b" using ab(1) by simp
    then show ?thesis
      using Number_decimal(1) [OF ab(2) ab(3) ab(4)] v False by (simp add: round2_def)
  qed
qed

lemma round2_hundredths: "\<exists>n::int. round2 x = real_of_int n / 100"
proof (cases "x < 0")
  case True
  have "round2 x = real_of_int (- int (nat \<lfloor>\<bar>x\<bar> * 100 + 1 / 2\<rfloor>)) / 100"
    using True by (simp add: round2_def)
  then show ?thesis by blast
next
  case False
  have "round2 x = real_of_int (int (nat \<lfloor>\<bar>x\<bar> * 100 + 1 / 2\<rfloor>)) / 100"
    using False by (simp add: round2_def)
  then show ?thesis by blast
qed

lemma round2_close: "\<bar>round2 x - x\<bar> \<le> 1 / 200"
proof -
  define k where "k = \<lfloor>\<bar>x\<bar> * 100 + 1 / 2\<rfloor>"
  have "0 \<le> \<bar>x\<bar> * 100 + 1 / 2" by simp
  then have nn: "0 \<le> k" unfolding k_def by simp
  have n: "real (nat k) = real_of_int k" using nn by simp
  have b1: "real_of_int k \<le> \<bar>x\<bar> * 100 + 1 / 2" unfolding k_def by simp
  have b2: "\<bar>x\<bar> * 100 + 1 / 2 < real_of_int k + 1" unfolding k_def by linarith
  show ?thesis
  proof (cases "x < 0")
    case True
    have r: "round2 x = - (real_of_int k / 100)"
      using True n by (simp add: round2_def k_def)
    from True b1 b2 have "- (1 / 200) \<le> - (real_of_int k / 100) - x"
      "- (real_of_int k / 100) - x \<le> 1 / 200" by linarith+
    then show ?thesis unfolding r by linarith
  next
    case False
    have r: "round2 x = real_of_int k / 100"
      using False n by (simp add: round2_def k_def)
    from False b1 b2 have "- (1 / 200) \<le> real_of_int k / 100 - x"
      "real_of_int k / 100 - x \<le> 1 / 200" by linarith+
    then show ?thesis unfolding r by linarith
  qed
qed

section \<open>Properties of the object written by the sampling loop\<close>

lemma setProp_keys: "fst ` set (setProp ps k v) = insert k (fst ` set ps)"
  by (induction ps) auto

lemma setProp_distinct: "distinct (map fst ps) \<Longrightarrow> distinct (map fst (setProp ps k v))"
proof (induction ps)
  case Nil
  then show ?case by simp
next
  case (Cons p ps)
  have "fst ` set (setProp ps k v) = insert k (fst ` set ps)" by (rule setProp_keys)
  with Cons show ?case by auto
qed

lemma setProp_fresh: "k \<notin> fst ` set ps \<Longrightarrow> setProp ps k v = ps @ [(k, v)]"
  by (induction ps) auto

lemma setProp_nonempty: "setProp ps k v \<noteq> []"
  by (cases ps) auto

lemma setProp_entries:
  "e \<in> set (setProp ps k v) \<Longrightarrow> e = (k, v) \<or> e \<in> set ps"
  by (induction ps) (auto split: if_splits)

lemma fold_setProp_fresh:
  "distinct (map lab js) \<Longrightarrow> lab ` set js \<inter> fst ` set res = {} \<Longrightarrow>
   fold (\<lambda>j r. setProp r (lab j) (vl j)) js res = res @ map (\<lambda>j. (lab j, vl j)) js"
proof (induction js arbitrary: res)
  case Nil
  then show ?case by simp
next
  case (Cons j js)
  from Cons.prems have fresh: "lab j \<notin> fst ` set res" by auto
  then have step: "setProp res (lab j) (vl j) = res @ [(lab j, vl j)]" by (rule setProp_fresh)
  have "distinct (map lab js)" using Cons.prems by simp
  moreover have "lab ` set js \<inter> fst ` set (res @ [(lab j, vl j)]) = {}"
    using Cons.prems by auto
  ultimately have "fold (\<lambda>j r. setProp r (lab j) (vl j)) js (res @ [(lab j, vl j)])
      = (res @ [(lab j, vl j)]) @ map (\<lambda>j. (lab j, vl j)) js"
    by (rule Cons.IH)
  then show ?case by (simp add: step)
qed

lemma fold_setProp_entries:
  "e \<in> set (fold (\<lambda>j r. setProp r (lab j) (vl j)) js res) \<Longrightarrow>
   e \<in> set res \<or> (\<exists>j \<in> set js. e = (lab j, vl j))"
proof (induction js arbitrary: res)
  case Nil
  then show ?case by simp
next
  case (Cons j js)
  from Cons.prems have "e \<in> set (fold (\<lambda>j r. setProp r (lab j) (vl j)) js (setProp res (lab j) (vl j)))"
    by simp
  then have "e \<in> set (setProp res (lab j) (vl j)) \<or> (\<exists>i \<in> set js. e = (lab i, vl i))"
    by (rule Cons.IH)
  then show ?case using setProp_entries [of e res "lab j" "vl j"] by auto
qed

lemma fold_setProp_nonempty:
  "js \<noteq> [] \<or> res \<noteq> [] \<Longrightarrow> fold (\<lambda>j r. setProp r (lab j) (vl j)) js res \<noteq> []"
proof (induction js arbitrary: res)
  case Nil
  then show ?case by simp
next
  case (Cons j js)
  have "setProp res (lab j) (vl j) \<noteq> []" by (rule setProp_nonempty)
  then show ?case using Cons.IH [of "setProp res (lab j) (vl j)"] by simp
qed

lemma fold_setProp_keys:
  "fst ` set (fold (\<lambda>j r. setProp r (lab j) (vl j)) js res) = fst ` set res \<union> lab ` set js"
proof (induction js arbitrary: res)
  case Nil
  then show ?case by simp
next
  case (Cons j js)
  show ?case by (simp add: Cons.IH setProp_keys)
qed

lemma fold_setProp_distinct:
  "distinct (map fst res) \<Longrightarrow> distinct (map fst (fold (\<lambda>j r. setProp r (lab j) (vl j)) js res))"
proof (induction js arbitrary: res)
  case Nil
  then show ?case by simp
next
  case (Cons j js)
  from Cons.prems have "distinct (map fst (setProp res (lab j) (vl j)))"
    by (rule setProp_distinct)
  then show ?case using Cons.IH by simp
qed

lemma loop_fold:
  "getAltituteData_loop c m startTime i result =
   fold (\<lambda>j r. setProp r (formatTime c m (startTime + int j * 1800000))
        (round2 (pos_altitudeDegrees (SunCalc_getMoonPosition c (startTime + int j * 1800000)
           (latitude (location m)) (longitude (location m))))))
     [i..<48] result"
proof (induction c m startTime i result rule: getAltituteData_loop.induct)
  case (1 c m startTime i result)
  show ?case
  proof (cases "i < 48")
    case True
    then have upt: "[i..<48] = i # [i + 1..<48]" by (simp add: upt_conv_Cons)
    show ?thesis
      using True 1 [OF True refl refl refl]
      by (subst getAltituteData_loop.simps) (simp add: upt Number_toFixed2 Let_def mult.commute)
  next
    case False
    then show ?thesis by (subst getAltituteData_loop.simps) simp
  qed
qed

lemma getAltituteData_fold:
  "getAltituteData c m startTime =
   fold (\<lambda>j r. setProp r (formatTime c m (startTime + int j * 1800000))
        (round2 (pos_altitudeDegrees (SunCalc_getMoonPosition c (startTime + int j * 1800000)
           (latitude (location m)) (longitude (location m))))))
     [0..<48] []"
  by (simp add: getAltituteData_def loop_fold)

lemma set_ownEntries: "set (ownEntries d) = set d"
  by (auto simp add: ownEntries_def)

lemma length_ownEntries: "length (ownEntries d) = length d"
proof -
  have "length (ownEntries d) =
      length (filter (\<lambda>p. isArrayIndex (fst p)) d) + length (filter (\<lambda>p. \<not> isArrayIndex (fst p)) d)"
    by (simp add: ownEntries_def)
  also have "\<dots> = length d" by (rule sum_length_filter_compl)
  finally show ?thesis .
qed

lemma Math_max_Max: "xs \<noteq> [] \<Longrightarrow> Math_max xs = Max (set xs)"
  by (cases xs) (simp_all add: Max.set_eq_fold [symmetric])

lemma Math_min_Min: "xs \<noteq> [] \<Longrightarrow> Math_min xs = Min (set xs)"
  by (cases xs) (simp_all add: Min.set_eq_fold [symmetric])

section \<open>Cardinal direction\<close>

lemma Math_round_range:
  assumes "0 \<le> d" "d \<le> 360"
  shows "0 \<le> Math_round (d / 45) \<and> Math_round (d / 45) \<le> 8"
proof -
  have "0 \<le> d / 45 + 1 / 2" using assms by simp
  then have lo: "0 \<le> \<lfloor>d / 45 + 1 / 2\<rfloor>" by simp
  have "d / 45 + 1 / 2 < 9" using assms by simp
  then have "\<lfloor>d / 45 + 1 / 2\<rfloor> < 9" by (simp add: floor_less_iff)
  with lo show ?thesis by (simp add: Math_round_def)
qed

lemma index_cardinalPoints_compass8:
  assumes "0 \<le> k" "k \<le> 8"
  shows "index cardinalPoints k = Some (compass8 ! nat (k mod 8))"
proof -
  from assms consider "k = 0" | "k = 1" | "k = 2" | "k = 3" | "k = 4" | "k = 5" | "k = 6"
    | "k = 7" | "k = 8" by linarith
  then show ?thesis
    by cases (simp_all add: index_def cardinalPoints_def compass8_def)
qed

text \<open>
  Claim C2. For every azimuth from 0 to 360 degrees, \<open>_convertCardinal\<close> returns the entry of
  the eight-point compass table N, NE, E, SE, S, SW, W, NW at the index
  \<open>round(azimuth / 45) mod 8\<close>; it returns N for 0 and for 360. (The code reaches this with a
  table of nine entries and no modulo.)
\<close>

theorem convertCardinal_compass8:
  "(0 \<le> azimuth \<and> azimuth \<le> 360 \<longrightarrow>
      convertCardinal azimuth = Some (compass8 ! nat (Math_round (azimuth / 45) mod 8))
      \<and> convertCardinal azimuth = Some (cardinalDirection_spec azimuth))
   \<and> compass8 = [''N'', ''NE'', ''E'', ''SE'', ''S'', ''SW'', ''W'', ''NW'']
   \<and> convertCardinal 0 = Some ''N'' \<and> convertCardinal 360 = Some ''N''"
proof -
  have a: "0 \<le> azimuth \<and> azimuth \<le> 360 \<longrightarrow>
      convertCardinal azimuth = Some (compass8 ! nat (Math_round (azimuth / 45) mod 8))"
    using Math_round_range [of azimuth] index_cardinalPoints_compass8
    by (simp add: convertCardinal_def)
  have b: "convertCardinal 0 = Some ''N''"
    by (simp add: convertCardinal_def Math_round_def index_def cardinalPoints_def)
  have c: "convertCardinal 360 = Some ''N''"
    by (simp add: convertCardinal_def Math_round_def index_def cardinalPoints_def)
  from a b c show ?thesis by (simp add: compass8_def cardinalDirection_spec_def)
qed

theorem convertCardinal_compass8_witness:
  "convertCardinal 225 = Some ''SW'' \<and> compass8 ! nat (Math_round (225 / 45) mod 8) = ''SW''"
proof -
  have "(0::real) \<le> 225 \<and> (225::real) \<le> 360" by simp
  with convertCardinal_compass8 [of 225]
  have "convertCardinal 225 = Some (compass8 ! nat (Math_round (225 / 45) mod 8))" by blast
  moreover have "compass8 ! nat (Math_round (225 / 45) mod 8) = ''SW''"
    by (simp add: Math_round_def compass8_def)
  ultimately show ?thesis by simp
qed

text \<open>
  Claim C3, as stated: \<open>_convertCardinal\<close> returns N for 44 degrees and NE for 46 degrees.
  It fails: 44 / 45 rounds to 1, so 44 degrees is NE.
\<close>

theorem convertCardinal_44_counterexample:
  "convertCardinal 44 = Some ''NE'' \<and> convertCardinal 44 \<noteq> Some ''N''"
  by (simp add: convertCardinal_def Math_round_def index_def cardinalPoints_def)

text \<open>
  Claim C3, amended. \<open>_convertCardinal\<close> returns NE for 44 degrees and NE for 46 degrees; the
  boundary between N and NE lies at 22.5 degrees: N from -22.5 up to, but not including,
  22.5 degrees, and NE from 22.5 up to, but not including, 67.5 degrees.
\<close>

theorem convertCardinal_buckets:
  "convertCardinal 44 = Some ''NE'' \<and> convertCardinal 46 = Some ''NE''
   \<and> convertCardinal (45 / 2) = Some ''NE''
   \<and> (- (45 / 2) \<le> azimuth \<and> azimuth < 45 / 2 \<longrightarrow> convertCardinal azimuth = Some ''N'')
   \<and> (45 / 2 \<le> azimuth \<and> azimuth < 135 / 2 \<longrightarrow> convertCardinal azimuth = Some ''NE'')"
proof -
  have a: "convertCardinal 44 = Some ''NE''" "convertCardinal 46 = Some ''NE''"
    "convertCardinal (45 / 2) = Some ''NE''"
    by (simp_all add: convertCardinal_def Math_round_def index_def cardinalPoints_def)
  have b: "convertCardinal azimuth = Some ''N''" if "- (45 / 2) \<le> azimuth" "azimuth < 45 / 2"
  proof -
    have "0 \<le> azimuth / 45 + 1 / 2" "azimuth / 45 + 1 / 2 < 1" using that by simp_all
    then have "\<lfloor>azimuth / 45 + 1 / 2\<rfloor> = 0" by linarith
    then show ?thesis by (simp add: convertCardinal_def Math_round_def index_def cardinalPoints_def)
  qed
  have c: "convertCardinal azimuth = Some ''NE''" if "45 / 2 \<le> azimuth" "azimuth < 135 / 2"
  proof -
    have "1 \<le> azimuth / 45 + 1 / 2" "azimuth / 45 + 1 / 2 < 2" using that by simp_all
    then have "\<lfloor>azimuth / 45 + 1 / 2\<rfloor> = 1" by linarith
    then show ?thesis by (simp add: convertCardinal_def Math_round_def index_def cardinalPoints_def)
  qed
  from a b c show ?thesis by blast
qed

theorem convertCardinal_buckets_witness:
  "convertCardinal 22 = Some ''N'' \<and> convertCardinal 23 = Some ''NE''"
proof -
  have "convertCardinal 22 = Some ''N''" using convertCardinal_buckets [of 22] by simp
  moreover have "convertCardinal 23 = Some ''NE''" using convertCardinal_buckets [of 23] by simp
  ultimately show ?thesis by simp
qed

text \<open>
  Claim C10. \<open>_convertCardinal\<close> is not total over the real azimuths: its table has exactly
  nine entries, index 0 to 8 with N at both ends, and the index \<open>round(degrees / 45)\<close> is
  used as it is; so for every azimuth of at least 382.5 degrees, and for every azimuth below
  -22.5 degrees, the lookup falls outside the table and yields no compass point.
\<close>

theorem convertCardinal_not_total:
  "length cardinalPoints = 9 \<and> cardinalPoints ! 0 = ''N'' \<and> cardinalPoints ! 8 = ''N''
   \<and> convertCardinal degrees = index cardinalPoints (Math_round (degrees / 45))
   \<and> (765 / 2 \<le> degrees \<longrightarrow> convertCardinal degrees = None)
   \<and> (degrees < - (45 / 2) \<longrightarrow> convertCardinal degrees = None)"
proof -
  have hi: "convertCardinal degrees = None" if "765 / 2 \<le> degrees"
  proof -
    have "9 \<le> degrees / 45 + 1 / 2" using that by simp
    then have "9 \<le> \<lfloor>degrees / 45 + 1 / 2\<rfloor>" by (simp add: le_floor_iff)
    then show ?thesis by (simp add: convertCardinal_def Math_round_def index_def cardinalPoints_def)
  qed
  have lo: "convertCardinal degrees = None" if "degrees < - (45 / 2)"
  proof -
    have "degrees / 45 + 1 / 2 < 0" using that by simp
    then have "\<lfloor>degrees / 45 + 1 / 2\<rfloor> < 0" by (simp add: floor_less_iff)
    then show ?thesis by (simp add: convertCardinal_def Math_round_def index_def cardinalPoints_def)
  qed
  from hi lo show ?thesis by (simp add: cardinalPoints_def convertCardinal_def)
qed

theorem convertCardinal_not_total_witness:
  "convertCardinal 400 = None \<and> convertCardinal (- 30) = None"
proof -
  have "(765::real) / 2 \<le> 400" by simp
  with convertCardinal_not_total [of 400] have "convertCardinal 400 = None" by blast
  moreover have "(- 30::real) < - (45 / 2)" by simp
  with convertCardinal_not_total [of "- 30"] have "convertCardinal (- 30) = None" by blast
  ultimately show ?thesis by simp
qed

section \<open>The collaborators of the examples, evaluated\<close>

lemma example_formatTime: "formatTime exampleSource m t = wallClock berlinOffset t"
  by (simp add: formatTime_def exampleSource_def)

lemma example_altitude:
  "pos_altitudeDegrees (SunCalc_getMoonPosition exampleSource t lat lon)
     = real_of_int ((t div 1800000) mod 48) * 1.234 - 30"
  by (simp add: exampleSource_def)

lemma example_formatNumber: "formatNumber exampleSource m num = num"
  by (simp add: formatNumber_def exampleSource_def)

lemma example_lang: "lang (exampleMoon l lat) = l"
  by (simp add: exampleMoon_def Moon_new_def)

lemma example_useMiles: "useMiles (exampleMoon l lat) = True"
  by (simp add: exampleMoon_def Moon_new_def)

lemma example_moonTime:
  "moonTime exampleSource (exampleMoon l lat) =
     (if 66 < lat
      then \<lparr>rise_t = InvalidTime, set_t = Time 1730023200000, highest_t = None\<rparr>
      else \<lparr>rise_t = Time 1729983600000, set_t = Time 1730023200000,
             highest_t = Some (Time 1730003400000)\<rparr>)"
  by (simp add: moonTime_def exampleSource_def exampleMoon_def Moon_new_def)

lemma example_moonData_raw:
  "moonData_raw exampleSource (exampleMoon l lat) =
     \<lparr>sc_distance = 384400, sc_azimuthDegrees = 225, sc_altitudeDegrees = 12.345,
      zenithAngle = 10, parallacticAngle = 1,
      illumination = \<lparr>fraction = 0.5, phaseValue = 0.25, phase_id = ''firstQuarter'',
        next_fullMoon = 1730580000000, next_newMoon = 1731780000000\<rparr>\<rparr>"
  by (simp add: moonData_raw_def exampleSource_def exampleMoon_def Moon_new_def)

lemma example_images_length: "length (MOON_IMAGES exampleSource) = 31"
  by (simp add: exampleSource_def)

lemma example_image_7: "MOON_IMAGES exampleSource ! 7 = ''7''"
  by (simp add: exampleSource_def showNat.simps digitChar_def)

section \<open>Image selection\<close>

lemma js_rem_nonneg: "0 \<le> a \<Longrightarrow> js_rem a 31 = a mod 31"
  by (simp add: js_rem_def sgn_if)

lemma phaseIndex_nonneg: "0 \<le> pv \<Longrightarrow> phaseIndex pv = \<lfloor>pv * 31\<rfloor> mod 31"
  by (simp add: phaseIndex_def Math_floor_def js_rem_nonneg)

lemma moonPic_moonImage:
  "moonPic (moonImage c m) = index (MOON_IMAGES c) (phaseIndex (phaseValue (illumination (moonData_raw c m))))"
  by (simp add: moonImage_def Let_def)

lemma rotateDeg_moonImage:
  "rotateDeg (moonImage c m)
     = (zenithAngle (moonData_raw c m) - parallacticAngle (moonData_raw c m)) * (180 / pi)"
  by (simp add: moonImage_def Let_def)

text \<open>
  Claim C4. For every phase value in [0, 1), \<open>moonImage\<close> computes the phase index
  \<open>floor(phaseValue * 31) mod 31\<close>, which lies in [0, 30], so that it always selects one of
  the 31 images of the table.
\<close>

theorem phaseIndex_in_range:
  assumes "0 \<le> pv" and "pv < 1"
  shows "phaseIndex pv = \<lfloor>pv * 31\<rfloor> mod 31 \<and> 0 \<le> phaseIndex pv \<and> phaseIndex pv \<le> 30
    \<and> (length (MOON_IMAGES c) = 31 \<and> phaseValue (illumination (moonData_raw c m)) = pv \<longrightarrow>
         moonPic (moonImage c m) = Some (MOON_IMAGES c ! nat (phaseIndex pv)))"
proof -
  have "0 \<le> pv * 31" using assms by simp
  then have lo: "0 \<le> \<lfloor>pv * 31\<rfloor>" by simp
  have "pv * 31 < 31" using assms by simp
  then have hi: "\<lfloor>pv * 31\<rfloor> < 31" by (simp add: floor_less_iff)
  have eq: "phaseIndex pv = \<lfloor>pv * 31\<rfloor> mod 31" using assms by (simp add: phaseIndex_nonneg)
  have val: "phaseIndex pv = \<lfloor>pv * 31\<rfloor>" using lo hi by (simp add: eq)
  have range: "0 \<le> phaseIndex pv" "phaseIndex pv \<le> 30" using lo hi by (simp_all add: val)
  have "index (MOON_IMAGES c) (phaseIndex pv) = Some (MOON_IMAGES c ! nat (phaseIndex pv))"
    if "length (MOON_IMAGES c) = 31"
    using that range by (simp add: index_def)
  then show ?thesis using eq range by (simp add: moonPic_moonImage)
qed

theorem phaseIndex_in_range_witness:
  "phaseIndex (1 / 4) = 7
   \<and> moonPic (moonImage exampleSource (exampleMoon ''de'' (105 / 2))) = Some ''7''"
proof -
  have h: "(0::real) \<le> 1 / 4" "(1::real) / 4 < 1" by simp_all
  have v: "\<lfloor>(1::real) / 4 * 31\<rfloor> mod 31 = 7" by simp
  have pv: "phaseValue (illumination (moonData_raw exampleSource (exampleMoon ''de'' (105 / 2)))) = 1 / 4"
    by (simp add: example_moonData_raw)
  from phaseIndex_in_range [OF h, of exampleSource "exampleMoon ''de'' (105 / 2)"] v pv
  show ?thesis by (simp add: example_images_length example_image_7)
qed

text \<open>
  Claim C5. For every raw astronomical sample, \<open>moonImage\<close> picks the image at the index
  \<open>floor(phaseValue * 31) % 31\<close>, which is \<open>floor(phaseValue * 31) mod 31\<close> for every
  non-negative phase value, and returns the rotation
  \<open>(zenithAngle - parallacticAngle) * 180 / \<pi>\<close> as it is, with no clamping: an angle beyond
  360 degrees is passed through unchanged. \<open>_getMoonRotation\<close> returns the same angle.
\<close>

theorem moonImage_selection:
  "rotateDeg (moonImage c m)
     = (zenithAngle (moonData_raw c m) - parallacticAngle (moonData_raw c m)) * 180 / pi
   \<and> getMoonRotation c m = rotateDeg (moonImage c m)
   \<and> moonPic (moonImage c m)
       = index (MOON_IMAGES c) (js_rem \<lfloor>phaseValue (illumination (moonData_raw c m)) * 31\<rfloor> 31)
   \<and> (0 \<le> phaseValue (illumination (moonData_raw c m)) \<longrightarrow>
        moonPic (moonImage c m)
          = index (MOON_IMAGES c) (\<lfloor>phaseValue (illumination (moonData_raw c m)) * 31\<rfloor> mod 31))"
proof -
  have rot: "rotateDeg (moonImage c m)
     = (zenithAngle (moonData_raw c m) - parallacticAngle (moonData_raw c m)) * 180 / pi"
    by (simp add: rotateDeg_moonImage)
  have same: "getMoonRotation c m = rotateDeg (moonImage c m)"
    by (simp add: rotateDeg_moonImage getMoonRotation_def Let_def)
  have pic: "moonPic (moonImage c m)
       = index (MOON_IMAGES c) (js_rem \<lfloor>phaseValue (illumination (moonData_raw c m)) * 31\<rfloor> 31)"
    by (simp add: moonPic_moonImage phaseIndex_def Math_floor_def)
  have "0 \<le> \<lfloor>phaseValue (illumination (moonData_raw c m)) * 31\<rfloor>"
    if "0 \<le> phaseValue (illumination (moonData_raw c m))"
    using that by simp
  then have "js_rem \<lfloor>phaseValue (illumination (moonData_raw c m)) * 31\<rfloor> 31
      = \<lfloor>phaseValue (illumination (moonData_raw c m)) * 31\<rfloor> mod 31"
    if "0 \<le> phaseValue (illumination (moonData_raw c m))"
    using that by (simp add: js_rem_nonneg)
  with rot same pic show ?thesis by simp
qed

theorem moonImage_selection_witness:
  "rotateDeg (moonImage exampleSource (exampleMoon ''de'' (105 / 2))) = 1620 / pi
   \<and> 360 < rotateDeg (moonImage exampleSource (exampleMoon ''de'' (105 / 2)))
   \<and> moonPic (moonImage exampleSource (exampleMoon ''de'' (105 / 2))) = Some ''7''"
proof -
  note inst = moonImage_selection [of exampleSource "exampleMoon ''de'' (105 / 2)"]
  have r: "rotateDeg (moonImage exampleSource (exampleMoon ''de'' (105 / 2))) = 1620 / pi"
    using inst by (simp add: example_moonData_raw)
  have "360 * pi < 1620" using pi_less_4 by simp
  then have big: "360 < 1620 / pi" using pi_gt_zero by (simp add: field_simps)
  have v: "\<lfloor>(1::real) / 4 * 31\<rfloor> mod 31 = 7" by simp
  have p: "moonPic (moonImage exampleSource (exampleMoon ''de'' (105 / 2))) = Some ''7''"
    using inst v
    by (simp add: example_moonData_raw index_def example_images_length example_image_7
        js_rem_def)
  from r big p show ?thesis by simp
qed

section \<open>The snapshot \<open>moonData\<close>\<close>

lemma createMoonTime_Time:
  "createMoonTime c m key (Time t) =
     Inr (createItem c m key (formatTime c m t) (Some [])
       (Some (if rt_value (ext_formatRelativeTime c t) \<noteq> []
              then localize c m (rt_key (ext_formatRelativeTime c t)) ''{0}''
                     (rt_value (ext_formatRelativeTime c t))
              else localize c m (rt_key (ext_formatRelativeTime c t)) [] [])))"
  by (simp add: createMoonTime_def localizeRelativeTime_def Let_def)

lemma createMoonTime_InvalidTime: "createMoonTime c m key InvalidTime = Inl RangeError"
  by (simp add: createMoonTime_def)

lemma createMoonTime_returns: "t \<noteq> InvalidTime \<Longrightarrow> \<exists>it. createMoonTime c m key t = Inr it"
  by (cases t) (simp_all add: createMoonTime_Time)

lemma moonData_returns:
  assumes "rise_t (moonTime c m) \<noteq> InvalidTime" and "set_t (moonTime c m) \<noteq> InvalidTime"
    and "highest_t (moonTime c m) \<noteq> Some InvalidTime"
  shows "\<exists>d. moonData c m = Inr d"
proof -
  obtain a where a: "createMoonTime c m ''moonRise'' (rise_t (moonTime c m)) = Inr a"
    using createMoonTime_returns [OF assms(1)] by blast
  obtain b where b: "createMoonTime c m ''moonSet'' (set_t (moonTime c m)) = Inr b"
    using createMoonTime_returns [OF assms(2)] by blast
  show ?thesis
  proof (cases "highest_t (moonTime c m)")
    case None
    then show ?thesis by (simp add: moonData_def Let_def a b)
  next
    case (Some h)
    then have "h \<noteq> InvalidTime" using assms(3) by auto
    then obtain e where "createMoonTime c m ''moonHigh'' h = Inr e"
      using createMoonTime_returns by blast
    with Some show ?thesis by (simp add: moonData_def Let_def a b)
  qed
qed

lemma error_RangeError: "(e::error) = RangeError"
  by (cases e) simp

lemma moonData_raises:
  "rise_t (moonTime c m) = InvalidTime \<or> set_t (moonTime c m) = InvalidTime
     \<or> highest_t (moonTime c m) = Some InvalidTime \<Longrightarrow>
   moonData c m = Inl RangeError"
  by (auto simp add: moonData_def Let_def createMoonTime_InvalidTime error_RangeError
      split: sum.splits option.splits)

lemma moonData_moonHighest:
  assumes "moonData c m = Inr d"
  shows "highest_t (moonTime c m) = None \<Longrightarrow> moonHighest d = None"
    and "highest_t (moonTime c m) = Some h \<Longrightarrow>
           \<exists>it. createMoonTime c m ''moonHigh'' h = Inr it \<and> moonHighest d = Some it"
  using assms by (auto simp add: moonData_def Let_def split: sum.splits)

lemma moonData_items:
  assumes "moonData c m = Inr d"
  shows "moonFraction d = createItem c m ''illumination''
           (formatNumber c m (toFixed 2 (fraction (illumination (moonData_raw c m)) * 100)))
           (Some ''%'') None"
    and "distance d = createItem c m ''distance''
           (formatNumber c m (toFixed 2 (convertKmToMiles m (sc_distance (moonData_raw c m)))))
           (Some (if useMiles m then ''mi'' else ''km'')) None"
    and "azimuthDegress d = createItem c m ''azimuth''
           (formatNumber c m (toFixed 2 (sc_azimuthDegrees (moonData_raw c m))))
           (Some degreeSign) None"
    and "altitudeDegrees d = createItem c m ''altitude''
           (formatNumber c m (toFixed 2 (sc_altitudeDegrees (moonData_raw c m))))
           (Some degreeSign) None"
  using assms by (auto simp add: moonData_def Let_def split: sum.splits option.splits)

lemma item_value_createItem:
  "unit \<noteq> [] \<Longrightarrow>
   item_value (createItem c m label v (Some unit) sv) = v @ blackBeforeUnit m unit @ unit"
  by (simp add: createItem_def truthy_def)

lemma example_moonData_returns: "\<exists>d. moonData exampleSource (exampleMoon l (105 / 2)) = Inr d"
  by (rule moonData_returns) (simp_all add: example_moonTime)

text \<open>
  Claim C7. Where the astronomical source supplies no highest-transit time, the snapshot
  that \<open>moonData\<close> builds omits the transit item. The branch for the highest time does
  that (\<open>moonData_moonHighest\<close>: in a snapshot that is built, \<open>moonHighest\<close> is \<open>undefined\<close>
  exactly when the source gives no highest time). But the source gives no highest time on
  the days on which the moon does not rise or does not set, and there the rise or set time
  is \<open>NaN\<close>: \<open>createMoonTime\<close> raises a RangeError on it, in \<open>toISOString\<close>, and no snapshot
  is built. At 70 degrees of latitude the example source reports such a day.
\<close>

theorem moonData_polar_day_raises:
  "highest_t (moonTime exampleSource (exampleMoon ''de'' 70)) = None
   \<and> rise_t (moonTime exampleSource (exampleMoon ''de'' 70)) = InvalidTime
   \<and> set_t (moonTime exampleSource (exampleMoon ''de'' 70)) = Time 1730023200000
   \<and> moonData exampleSource (exampleMoon ''de'' 70) = Inl RangeError"
proof -
  have t: "rise_t (moonTime exampleSource (exampleMoon ''de'' 70)) = InvalidTime"
    "set_t (moonTime exampleSource (exampleMoon ''de'' 70)) = Time 1730023200000"
    "highest_t (moonTime exampleSource (exampleMoon ''de'' 70)) = None"
    by (simp_all add: example_moonTime)
  have "moonData exampleSource (exampleMoon ''de'' 70) = Inl RangeError"
    by (rule moonData_raises) (simp add: t)
  with t show ?thesis by simp
qed

text \<open>
  Claim C8, as stated: before a percent sign the separator is a hairline space for the
  languages cs, de, fi, fr, sk and sv. It fails: \<open>blackBeforeUnit\<close> returns the regular space
  U+0020 there, the same character that it puts before any other unit.
\<close>

theorem createItem_percent_counterexample:
  "item_value (createItem exampleSource (exampleMoon ''fr'' (105 / 2)) ''illumination'' ''50.00''
      (Some ''%'') None) = ''50.00 %''
   \<and> ''50.00 %'' \<noteq> ''50.00'' @ hairSpace @ ''%''"
  by (simp add: item_value_createItem blackBeforeUnit_def example_lang degreeSign_def
      hairSpace_def)

text \<open>
  Claim C8, amended. For every formatted item with a unit, the separator between the value
  and the unit is: a single regular space before the percent sign exactly when the language
  is one of cs, de, fi, fr, sk, sv, and nothing before the percent sign for every other
  language; never anything before the degree sign; and a single regular space before any
  other unit. In the snapshot this makes the illumination, azimuth and altitude items.
\<close>

theorem createItem_separator:
  "item_value (createItem c m label v (Some degreeSign) sv) = v @ degreeSign
   \<and> (lang m \<in> {''cs'', ''de'', ''fi'', ''fr'', ''sk'', ''sv''} \<longrightarrow>
        item_value (createItem c m label v (Some ''%'') sv) = v @ '' '' @ ''%'')
   \<and> (lang m \<notin> {''cs'', ''de'', ''fi'', ''fr'', ''sk'', ''sv''} \<longrightarrow>
        item_value (createItem c m label v (Some ''%'') sv) = v @ ''%'')
   \<and> (unit \<noteq> [] \<and> unit \<noteq> degreeSign \<and> unit \<noteq> ''%'' \<longrightarrow>
        item_value (createItem c m label v (Some unit) sv) = v @ '' '' @ unit)
   \<and> (moonData c m = Inr d \<longrightarrow>
        item_value (moonFraction d) =
          formatNumber c m (toFixed 2 (fraction (illumination (moonData_raw c m)) * 100)) @
          (if lang m \<in> {''cs'', ''de'', ''fi'', ''fr'', ''sk'', ''sv''} then '' %'' else ''%'')
        \<and> item_value (azimuthDegress d) =
          formatNumber c m (toFixed 2 (sc_azimuthDegrees (moonData_raw c m))) @ degreeSign
        \<and> item_value (altitudeDegrees d) =
          formatNumber c m (toFixed 2 (sc_altitudeDegrees (moonData_raw c m))) @ degreeSign)"
proof -
  have deg: "item_value (createItem c m label v (Some degreeSign) sv) = v @ degreeSign" for label v sv
    by (simp add: createItem_def truthy_def blackBeforeUnit_def degreeSign_def)
  have pct: "item_value (createItem c m label v (Some ''%'') sv) =
      v @ (if lang m \<in> {''cs'', ''de'', ''fi'', ''fr'', ''sk'', ''sv''} then '' %'' else ''%'')"
    for label v sv
    by (simp add: createItem_def truthy_def blackBeforeUnit_def degreeSign_def)
  have other: "item_value (createItem c m label v (Some unit) sv) = v @ '' '' @ unit"
    if "unit \<noteq> []" "unit \<noteq> degreeSign" "unit \<noteq> ''%''"
    using that by (simp add: item_value_createItem blackBeforeUnit_def)
  have snap: "item_value (moonFraction d) =
          formatNumber c m (toFixed 2 (fraction (illumination (moonData_raw c m)) * 100)) @
          (if lang m \<in> {''cs'', ''de'', ''fi'', ''fr'', ''sk'', ''sv''} then '' %'' else ''%'')
        \<and> item_value (azimuthDegress d) =
          formatNumber c m (toFixed 2 (sc_azimuthDegrees (moonData_raw c m))) @ degreeSign
        \<and> item_value (altitudeDegrees d) =
          formatNumber c m (toFixed 2 (sc_altitudeDegrees (moonData_raw c m))) @ degreeSign"
    if "moonData c m = Inr d"
    by (simp only: moonData_items [OF that] deg pct)
  show ?thesis using deg pct other snap by simp
qed

theorem createItem_separator_witness:
  "item_value (createItem exampleSource (exampleMoon ''fr'' (105 / 2)) ''illumination'' ''50.00''
      (Some ''%'') None) = ''50.00 %''
   \<and> item_value (createItem exampleSource (exampleMoon ''en'' (105 / 2)) ''illumination'' ''50.00''
      (Some ''%'') None) = ''50.00%''
   \<and> item_value (createItem exampleSource (exampleMoon ''en'' (105 / 2)) ''distance'' ''384400.00''
      (Some ''km'') None) = ''384400.00 km''
   \<and> (\<exists>d. moonData exampleSource (exampleMoon ''fr'' (105 / 2)) = Inr d
         \<and> item_value (moonFraction d) = ''50.00 %''
         \<and> item_value (altitudeDegrees d) = ''12.35'' @ degreeSign)"
proof -
  have fr: "item_value (createItem exampleSource (exampleMoon ''fr'' (105 / 2)) ''illumination''
      ''50.00'' (Some ''%'') None) = ''50.00 %''"
    using createItem_separator [of exampleSource "exampleMoon ''fr'' (105 / 2)" "''illumination''"
        "''50.00''" None]
    by (simp add: example_lang)
  have en: "item_value (createItem exampleSource (exampleMoon ''en'' (105 / 2)) ''illumination''
      ''50.00'' (Some ''%'') None) = ''50.00%''"
    using createItem_separator [of exampleSource "exampleMoon ''en'' (105 / 2)" "''illumination''"
        "''50.00''" None]
    by (simp add: example_lang)
  have km: "item_value (createItem exampleSource (exampleMoon ''en'' (105 / 2)) ''distance''
      ''384400.00'' (Some ''km'') None) = ''384400.00 km''"
    using createItem_separator [of exampleSource "exampleMoon ''en'' (105 / 2)" "''distance''"
        "''384400.00''" None "''km''"]
    by (simp add: degreeSign_def)
  obtain d where d: "moonData exampleSource (exampleMoon ''fr'' (105 / 2)) = Inr d"
    using example_moonData_returns by blast
  have f1: "toFixed 2 (1 / 2 * 100) = ''50.00''"
    by (simp add: toFixed_def Let_def showNat.simps digitChar_def)
  have f2: "toFixed 2 (12345 / 1000) = ''12.35''"
    by (simp add: toFixed_def Let_def showNat.simps digitChar_def)
  have "item_value (moonFraction d) = ''50.00 %''
      \<and> item_value (altitudeDegrees d) = ''12.35'' @ degreeSign"
    using createItem_separator [of exampleSource "exampleMoon ''fr'' (105 / 2)" _ _ _ _ d] d f1 f2
    by (simp add: example_lang example_moonData_raw example_formatNumber)
  with fr en km d show ?thesis by blast
qed

text \<open>
  Claim C9. The distance conversion returns \<open>km * 0.621371\<close> when miles are asked for and
  \<open>km\<close> unchanged otherwise; it does not round: the rounding to two decimals is applied
  where \<open>moonData\<close> formats the distance item. 384400 km are 238855 miles to within one mile.
\<close>

theorem convertKmToMiles_linear:
  "helpers_convertKmToMiles km True = km * 0.621371
   \<and> helpers_convertKmToMiles km False = km
   \<and> convertKmToMiles m km = helpers_convertKmToMiles km (useMiles m)
   \<and> \<bar>helpers_convertKmToMiles 384400 True - 238855\<bar> \<le> 1
   \<and> helpers_convertKmToMiles 1 True = 0.621371
   \<and> (moonData c m = Inr d \<longrightarrow>
        item_value (distance d) =
          formatNumber c m (toFixed 2 (convertKmToMiles m (sc_distance (moonData_raw c m)))) @
          '' '' @ (if useMiles m then ''mi'' else ''km''))"
proof -
  have "item_value (distance d) =
          formatNumber c m (toFixed 2 (convertKmToMiles m (sc_distance (moonData_raw c m)))) @
          '' '' @ (if useMiles m then ''mi'' else ''km'')"
    if "moonData c m = Inr d"
    by (simp add: moonData_items(2) [OF that] item_value_createItem blackBeforeUnit_def
        degreeSign_def)
  then show ?thesis
    by (simp add: helpers_convertKmToMiles_def convertKmToMiles_def)
qed

theorem convertKmToMiles_linear_witness:
  "convertKmToMiles (exampleMoon ''de'' (105 / 2)) 384400 = 238855.0124
   \<and> (\<exists>d. moonData exampleSource (exampleMoon ''de'' (105 / 2)) = Inr d
         \<and> item_value (distance d) = ''238855.01 mi'')"
proof -
  obtain d where d: "moonData exampleSource (exampleMoon ''de'' (105 / 2)) = Inr d"
    using example_moonData_returns by blast
  note inst = convertKmToMiles_linear [of 384400 "exampleMoon ''de'' (105 / 2)" exampleSource d]
  have conv: "convertKmToMiles (exampleMoon ''de'' (105 / 2)) 384400 = 238855.0124"
    using inst by (simp add: example_useMiles)
  have f: "toFixed 2 (238855.0124) = ''238855.01''"
    by (simp add: toFixed_def Let_def showNat.simps digitChar_def)
  have "item_value (distance d) = ''238855.01 mi''"
    using inst d conv f
    by (simp add: example_moonData_raw example_formatNumber example_useMiles)
  with conv d show ?thesis by blast
qed

section \<open>The altitude profile\<close>

lemma upt_48:
  "[0..<48] =
     [0, 1, 2, 3, 4, 5, 6, 7, 8, 9, 10, 11] @
     [12, 13, 14, 15, 16, 17, 18, 19, 20, 21, 22, 23] @
     [24, 25, 26, 27, 28, 29, 30, 31, 32, 33, 34, 35] @
     [36, 37, 38, 39, 40, 41, 42, 43, 44, 45, 46, 47]"
  by (simp add: upt_conv_Cons)

lemma getAltituteData_distinct:
  assumes "distinct (map (\<lambda>i. formatTime c m (startTime + int i * 1800000)) [0..<48])"
  shows "getAltituteData c m startTime =
     map (\<lambda>i. (formatTime c m (startTime + int i * 1800000),
                round2 (pos_altitudeDegrees (SunCalc_getMoonPosition c (startTime + int i * 1800000)
                  (latitude (location m)) (longitude (location m))))))
       [0..<48]"
  using fold_setProp_fresh [OF assms, of "[]"] by (simp add: getAltituteData_fold)

lemma getAltituteData_entries:
  assumes "e \<in> set (getAltituteData c m startTime)"
  shows "\<exists>i<48. e = (formatTime c m (startTime + int i * 1800000),
           round2 (pos_altitudeDegrees (SunCalc_getMoonPosition c (startTime + int i * 1800000)
             (latitude (location m)) (longitude (location m)))))"
proof -
  from assms have "e \<in> set [] \<or> (\<exists>i \<in> set [0..<48].
      e = (formatTime c m (startTime + int i * 1800000),
           round2 (pos_altitudeDegrees (SunCalc_getMoonPosition c (startTime + int i * 1800000)
             (latitude (location m)) (longitude (location m))))))"
    unfolding getAltituteData_fold by (rule fold_setProp_entries)
  then show ?thesis by auto
qed

lemma getAltituteData_nonempty: "getAltituteData c m startTime \<noteq> []"
  unfolding getAltituteData_fold by (rule fold_setProp_nonempty) simp

text \<open>In general the profile has as many entries as the 48 instants have distinct labels.\<close>

lemma getAltituteData_length:
  "length (getAltituteData c m startTime)
     = card ((\<lambda>i. formatTime c m (startTime + int i * 1800000)) ` {0..<48})"
proof -
  let ?d = "getAltituteData c m startTime"
  have "distinct (map fst ?d)"
    unfolding getAltituteData_fold by (rule fold_setProp_distinct) simp
  then have "card (set (map fst ?d)) = length (map fst ?d)"
    by (rule distinct_card)
  moreover have "set (map fst ?d) = (\<lambda>i. formatTime c m (startTime + int i * 1800000)) ` {0..<48}"
    unfolding getAltituteData_fold using fold_setProp_keys [where res = "[]" and js = "[0..<48]"]
    by simp
  ultimately show ?thesis by (simp only: length_map)
qed

lemma Object_values_length: "length (Object_values d) = length d"
  by (simp add: Object_values_def length_ownEntries)

lemma Object_keys_length: "length (Object_keys d) = length d"
  by (simp add: Object_keys_def length_ownEntries)

lemma Object_values_set: "set (Object_values d) = snd ` set d"
  by (simp add: Object_values_def set_ownEntries)

lemma todayData_fields:
  "td_altitude (todayData c m startTime) = getAltituteData c m startTime"
  "timeLabels (todayData c m startTime) = Object_keys (getAltituteData c m startTime)"
  "altitudeData (todayData c m startTime) = Object_values (getAltituteData c m startTime)"
  "sugestedYMax (minMaxY (todayData c m startTime))
     = Math_ceil (Math_max (Object_values (getAltituteData c m startTime)) + 10)"
  "sugestedYMin (minMaxY (todayData c m startTime))
     = Math_min (Object_values (getAltituteData c m startTime)) - 10"
  by (simp_all add: todayData_def Let_def)

lemma example_profile_summer:
  "getAltituteData exampleSource (exampleMoon ''de'' (105 / 2)) 1718402400000 =
     [(''00:00'', 24.30), (''00:30'', 25.53), (''01:00'', 26.76), (''01:30'', 28.00),
      (''02:00'', - 30.00), (''02:30'', - 28.77), (''03:00'', - 27.53), (''03:30'', - 26.30),
      (''04:00'', - 25.06), (''04:30'', - 23.83), (''05:00'', - 22.60), (''05:30'', - 21.36),
      (''06:00'', - 20.13), (''06:30'', - 18.89), (''07:00'', - 17.66), (''07:30'', - 16.43),
      (''08:00'', - 15.19), (''08:30'', - 13.96), (''09:00'', - 12.72), (''09:30'', - 11.49),
      (''10:00'', - 10.26), (''10:30'', - 9.02), (''11:00'', - 7.79), (''11:30'', - 6.55),
      (''12:00'', - 5.32), (''12:30'', - 4.09), (''13:00'', - 2.85), (''13:30'', - 1.62),
      (''14:00'', - 0.38), (''14:30'', 0.85), (''15:00'', 2.08), (''15:30'', 3.32),
      (''16:00'', 4.55), (''16:30'', 5.79), (''17:00'', 7.02), (''17:30'', 8.25),
      (''18:00'', 9.49), (''18:30'', 10.72), (''19:00'', 11.96), (''19:30'', 13.19),
      (''20:00'', 14.42), (''20:30'', 15.66), (''21:00'', 16.89), (''21:30'', 18.13),
      (''22:00'', 19.36), (''22:30'', 20.59), (''23:00'', 21.83), (''23:30'', 23.06)]"
  apply (simp only: getAltituteData_fold upt_48 append.simps fold_simps comp_apply id_apply)
  apply (simp add: example_formatTime example_altitude wallClock_def berlinOffset_def
      twoDigits_def digitChar_def round2_def)
  done

lemma example_values_summer:
  "Object_values (getAltituteData exampleSource (exampleMoon ''de'' (105 / 2)) 1718402400000) =
     [24.30, 25.53, 26.76, 28.00, - 30.00, - 28.77, - 27.53, - 26.30,
      - 25.06, - 23.83, - 22.60, - 21.36, - 20.13, - 18.89, - 17.66, - 16.43,
      - 15.19, - 13.96, - 12.72, - 11.49, - 10.26, - 9.02, - 7.79, - 6.55,
      - 5.32, - 4.09, - 2.85, - 1.62, - 0.38, 0.85, 2.08, 3.32,
      4.55, 5.79, 7.02, 8.25, 9.49, 10.72, 11.96, 13.19,
      14.42, 15.66, 16.89, 18.13, 19.36, 20.59, 21.83, 23.06]"
  by (simp add: example_profile_summer Object_values_def ownEntries_def isArrayIndex_def
      isDigit_def)

lemma example_profile_autumn:
  "length (getAltituteData exampleSource (exampleMoon ''de'' (105 / 2)) 1729980000000) = 46"
  apply (simp only: getAltituteData_fold upt_48 append.simps fold_simps comp_apply id_apply)
  apply (simp add: example_formatTime example_altitude wallClock_def berlinOffset_def
      twoDigits_def digitChar_def round2_def)
  done

lemma example_labels_autumn:
  "formatTime exampleSource (exampleMoon ''de'' (105 / 2)) (1729980000000 + int 4 * 1800000) = ''02:00''"
  "formatTime exampleSource (exampleMoon ''de'' (105 / 2)) (1729980000000 + int 6 * 1800000) = ''02:00''"
  by (simp_all add: example_formatTime wallClock_def berlinOffset_def twoDigits_def digitChar_def)

lemma example_values_bounds:
  fixes v :: "real list"
  defines "v \<equiv> [24.30, 25.53, 26.76, 28.00, - 30.00, - 28.77, - 27.53, - 26.30,
      - 25.06, - 23.83, - 22.60, - 21.36, - 20.13, - 18.89, - 17.66, - 16.43,
      - 15.19, - 13.96, - 12.72, - 11.49, - 10.26, - 9.02, - 7.79, - 6.55,
      - 5.32, - 4.09, - 2.85, - 1.62, - 0.38, 0.85, 2.08, 3.32,
      4.55, 5.79, 7.02, 8.25, 9.49, 10.72, 11.96, 13.19,
      14.42, 15.66, 16.89, 18.13, 19.36, 20.59, 21.83, 23.06]"
  shows "Max (set v) = 28" and "Min (set v) = - 30"
proof -
  have ne: "v \<noteq> []" by (simp add: v_def)
  have a: "Math_max v = 28" by (simp add: v_def)
  have b: "Math_min v = - 30" by (simp add: v_def)
  show "Max (set v) = 28" by (rule trans [OF Math_max_Max [OF ne, symmetric] a])
  show "Min (set v) = - 30" by (rule trans [OF Math_min_Min [OF ne, symmetric] b])
qed

text \<open>
  Claim C1. For every day start, the altitude profile holds exactly 48 samples, sample \<open>i\<close>
  taken at the day start plus \<open>i\<close> times 30 minutes. The loop of \<open>_getAltituteData\<close> takes
  these 48 samples, but it keeps them in an object keyed by the label, and loses a sample
  where two instants get the same label. On the day on which summer time ends, the wall
  clock shows 02:00 and 02:30 twice: starting at the local midnight of 27 October 2024 in
  Central European time, the samples 4 and 6 both have the label 02:00, and the profile
  holds 46 samples.
\<close>

theorem getAltituteData_autumn_46_entries:
  "length (getAltituteData exampleSource (exampleMoon ''de'' (105 / 2)) 1729980000000) = 46
   \<and> length (altitudeData (todayData exampleSource (exampleMoon ''de'' (105 / 2)) 1729980000000)) = 46
   \<and> formatTime exampleSource (exampleMoon ''de'' (105 / 2)) (1729980000000 + int 4 * 1800000)
       = formatTime exampleSource (exampleMoon ''de'' (105 / 2)) (1729980000000 + int 6 * 1800000)"
  by (simp only: example_profile_autumn example_labels_autumn todayData_fields
      Object_values_length)

text \<open>
  Where the 48 labels are pairwise distinct, the profile holds the 48 samples, in the order
  of their instants.
\<close>

lemma getAltituteData_48_samples:
  assumes "distinct (map (\<lambda>i. formatTime c m (startTime + int i * 1800000)) [0..<48])"
  shows "length (getAltituteData c m startTime) = 48
    \<and> (\<forall>i<48. getAltituteData c m startTime ! i =
          (formatTime c m (startTime + int i * 1800000),
           round2 (pos_altitudeDegrees (SunCalc_getMoonPosition c (startTime + int i * 1800000)
             (latitude (location m)) (longitude (location m))))))
    \<and> length (timeLabels (todayData c m startTime)) = 48
    \<and> length (altitudeData (todayData c m startTime)) = 48"
proof -
  note eq = getAltituteData_distinct [OF assms]
  have len: "length (getAltituteData c m startTime) = 48" by (simp add: eq)
  have nth: "getAltituteData c m startTime ! i =
          (formatTime c m (startTime + int i * 1800000),
           round2 (pos_altitudeDegrees (SunCalc_getMoonPosition c (startTime + int i * 1800000)
             (latitude (location m)) (longitude (location m)))))" if "i < 48" for i
    using that by (simp add: eq)
  show ?thesis
    using len nth by (simp add: todayData_fields Object_values_length Object_keys_length)
qed

text \<open>
  Claim C6. For every daily altitude profile, each recorded altitude is the altitude in
  degrees sampled at one of the 48 instants, rounded to two decimals (a multiple of 0.01 at
  most 0.005 away), and the chart bounds are \<open>sugestedYMax = ceil(max(altitudes) + 10)\<close> and
  \<open>sugestedYMin = min(altitudes) - 10\<close>.
\<close>

theorem todayData_altitudes_bounds:
  "(\<forall>e \<in> set (td_altitude (todayData c m startTime)). \<exists>i<48.
       e = (formatTime c m (startTime + int i * 1800000),
            Number (toFixed 2 (pos_altitudeDegrees (SunCalc_getMoonPosition c
              (startTime + int i * 1800000) (latitude (location m)) (longitude (location m)))))))
   \<and> \<bar>Number (toFixed 2 x) - x\<bar> \<le> 1 / 200
   \<and> (\<exists>n::int. Number (toFixed 2 x) = real_of_int n / 100)
   \<and> altitudeData (todayData c m startTime) \<noteq> []
   \<and> set (altitudeData (todayData c m startTime)) = snd ` set (td_altitude (todayData c m startTime))
   \<and> sugestedYMax (minMaxY (todayData c m startTime))
       = \<lceil>Max (set (altitudeData (todayData c m startTime))) + 10\<rceil>
   \<and> sugestedYMin (minMaxY (todayData c m startTime))
       = Min (set (altitudeData (todayData c m startTime))) - 10"
proof -
  have entries: "\<forall>e \<in> set (td_altitude (todayData c m startTime)). \<exists>i<48.
       e = (formatTime c m (startTime + int i * 1800000),
            Number (toFixed 2 (pos_altitudeDegrees (SunCalc_getMoonPosition c
              (startTime + int i * 1800000) (latitude (location m)) (longitude (location m))))))"
    using getAltituteData_entries [of _ c m startTime]
    by (simp add: todayData_fields Number_toFixed2)
  have ne: "Object_values (getAltituteData c m startTime) \<noteq> []"
    using getAltituteData_nonempty [of c m startTime] Object_values_length [of "getAltituteData c m startTime"]
    by (metis length_0_conv)
  have mx: "sugestedYMax (minMaxY (todayData c m startTime))
       = \<lceil>Max (set (altitudeData (todayData c m startTime))) + 10\<rceil>"
    using ne by (simp add: todayData_fields Math_max_Max Math_ceil_def)
  have mn: "sugestedYMin (minMaxY (todayData c m startTime))
       = Min (set (altitudeData (todayData c m startTime))) - 10"
    using ne by (simp add: todayData_fields Math_min_Min)
  have st: "set (altitudeData (todayData c m startTime)) = snd ` set (td_altitude (todayData c m startTime))"
    by (simp add: todayData_fields Object_values_set)
  have ne': "altitudeData (todayData c m startTime) \<noteq> []"
    using ne by (simp add: todayData_fields)
  show ?thesis
    using entries round2_close [of x] round2_hundredths [of x] ne' st mx mn
    by (simp only: Number_toFixed2) blast
qed

theorem todayData_altitudes_bounds_witness:
  "sugestedYMax (minMaxY (todayData exampleSource (exampleMoon ''de'' (105 / 2)) 1718402400000)) = 38
   \<and> sugestedYMin (minMaxY (todayData exampleSource (exampleMoon ''de'' (105 / 2)) 1718402400000)) = - 40
   \<and> Max (set (altitudeData (todayData exampleSource (exampleMoon ''de'' (105 / 2)) 1718402400000))) = 28
   \<and> Min (set (altitudeData (todayData exampleSource (exampleMoon ''de'' (105 / 2)) 1718402400000))) = - 30
   \<and> Number (toFixed 2 (- 28.766)) = - 28.77"
proof -
  note inst = todayData_altitudes_bounds [of exampleSource "exampleMoon ''de'' (105 / 2)"
      1718402400000 "- 28.766"]
  have v: "altitudeData (todayData exampleSource (exampleMoon ''de'' (105 / 2)) 1718402400000) =
      [24.30, 25.53, 26.76, 28.00, - 30.00, - 28.77, - 27.53, - 26.30,
      - 25.06, - 23.83, - 22.60, - 21.36, - 20.13, - 18.89, - 17.66, - 16.43,
      - 15.19, - 13.96, - 12.72, - 11.49, - 10.26, - 9.02, - 7.79, - 6.55,
      - 5.32, - 4.09, - 2.85, - 1.62, - 0.38, 0.85, 2.08, 3.32,
      4.55, 5.79, 7.02, 8.25, 9.49, 10.72, 11.96, 13.19,
      14.42, 15.66, 16.89, 18.13, 19.36, 20.59, 21.83, 23.06]"
    by (simp only: todayData_fields example_values_summer)
  have mx: "Max (set (altitudeData (todayData exampleSource (exampleMoon ''de'' (105 / 2)) 1718402400000))) = 28"
    unfolding v by (rule example_values_bounds(1))
  have mn: "Min (set (altitudeData (todayData exampleSource (exampleMoon ''de'' (105 / 2)) 1718402400000))) = - 30"
    unfolding v by (rule example_values_bounds(2))
  from inst have "sugestedYMax (minMaxY (todayData exampleSource (exampleMoon ''de'' (105 / 2)) 1718402400000))
      = \<lceil>Max (set (altitudeData (todayData exampleSource (exampleMoon ''de'' (105 / 2)) 1718402400000))) + 10\<rceil>"
    by blast
  then have ymax: "sugestedYMax (minMaxY (todayData exampleSource (exampleMoon ''de'' (105 / 2)) 1718402400000)) = 38"
    by (simp add: mx)
  from inst have "sugestedYMin (minMaxY (todayData exampleSource (exampleMoon ''de'' (105 / 2)) 1718402400000))
      = Min (set (altitudeData (todayData exampleSource (exampleMoon ''de'' (105 / 2)) 1718402400000))) - 10"
    by blast
  then have ymin: "sugestedYMin (minMaxY (todayData exampleSource (exampleMoon ''de'' (105 / 2)) 1718402400000)) = - 40"
    by (simp add: mn)
  have r: "Number (toFixed 2 (- 28.766)) = - 28.77"
    by (simp add: Number_toFixed2 round2_def)
  from ymax ymin mx mn r show ?thesis by blast
qed

end
